theory Spec2Isabelle
  imports Complex_Main "HOL-Library.Word"
begin

section \<open>Data model\<close>

text \<open>
  Go's \<open>int\<close> and \<open>uint\<close> on a 64-bit target: 64-bit words, \<open>sint\<close> reading the signed
  value.
\<close>

type_synonym go_int = "64 word"
type_synonym go_uint = "64 word"

text \<open>
  The \<open>Person\<close> struct. Of the embedded \<open>gorm.Model\<close> only the primary key \<open>ID\<close> is kept;
  its three timestamp columns are maintained by the store and no handler reads them.
\<close>

record Person =
  ID :: go_uint
  Name :: string
  Surname :: string
  Patronymic :: string
  Age :: go_int
  Gender :: string
  Nationality :: string

text \<open>The zero value of \<open>var person Person\<close>.\<close>

definition zero_Person :: Person where
  "zero_Person =
     \<lparr>ID = 0, Name = [], Surname = [], Patronymic = [], Age = 0, Gender = [], Nationality = []\<rparr>"

text \<open>
  A value of type \<open>interface{}\<close> as \<open>encoding/json\<close> decodes it: \<open>nil\<close>, \<open>bool\<close>,
  \<open>float64\<close>, \<open>string\<close>, \<open>[]interface{}\<close> or \<open>map[string]interface{}\<close>. A decoded
  number is a finite \<open>float64\<close>, held here as the rational it denotes.
\<close>

datatype json =
    JNull
  | JBool bool
  | JNumber rat
  | JString string
  | JArray "json list"
  | JObject "string \<Rightarrow> json option"

text \<open>
  The outcome of \<open>client.R().SetResult(&response).Get(url)\<close>: either \<open>err != nil\<close>
  (the request could not be made or answered, or the body did not parse into the map), or
  \<open>err == nil\<close> and \<open>response\<close> holds the decoded map. A \<open>response\<close> left \<open>nil\<close> (an
  answer that is not a 2xx JSON document, or the document \<open>null\<close>) reads as the empty map.
\<close>

datatype lookup = Failed | Answered "string \<Rightarrow> json option"

text \<open>
  Everything outside the process that enrichment reads: the environment variables, the
  answer each of the three call sites gets for the URL it requests, and what the target
  yields when a \<open>float64\<close> outside the range of \<open>int\<close> is converted (Go leaves that result
  to the implementation).
\<close>

record world =
  getenv :: "string \<Rightarrow> string"
  agify_get :: "string \<Rightarrow> lookup"
  genderize_get :: "string \<Rightarrow> lookup"
  nationalize_get :: "string \<Rightarrow> lookup"
  int_of_large :: "rat \<Rightarrow> go_int"

text \<open>The URLs requested so far, in order.\<close>

type_synonym requests = "string list"

text \<open>The two run-time panics the program can raise.\<close>

datatype panic = InterfaceConversion | IndexOutOfRange

section \<open>Enrichment\<close>

text \<open>The conversion \<open>int(age)\<close> of a \<open>float64\<close>: the fraction is discarded (towards zero).\<close>

definition truncate_rat :: "rat \<Rightarrow> int" where
  "truncate_rat x = (if 0 \<le> x then \<lfloor>x\<rfloor> else \<lceil>x\<rceil>)"

definition fits_int :: "int \<Rightarrow> bool" where
  "fits_int i \<longleftrightarrow> - (2 ^ 63) \<le> i \<and> i < 2 ^ 63"

definition float64_to_int :: "world \<Rightarrow> rat \<Rightarrow> go_int" where
  "float64_to_int w x =
     (if fits_int (truncate_rat x) then word_of_int (truncate_rat x) else int_of_large w x)"

text \<open>\<open>fmt.Sprintf("%s/?name=%s", os.Getenv(v), name)\<close>\<close>

definition lookup_url :: "world \<Rightarrow> string \<Rightarrow> string \<Rightarrow> string" where
  "lookup_url w v name = getenv w v @ ''/?name='' @ name"

text \<open>\<open>age, _ := response["age"].(float64)\<close>\<close>

definition getAgifyAge :: "world \<Rightarrow> string \<Rightarrow> requests \<Rightarrow> go_int \<times> requests" where
  "getAgifyAge w name rs =
     (let url = lookup_url w ''AGIFY_API'' name in
      case agify_get w url of
        Failed \<Rightarrow> (0, rs @ [url])
      | Answered response \<Rightarrow>
          (case response ''age'' of
             Some (JNumber age) \<Rightarrow> (float64_to_int w age, rs @ [url])
           | _ \<Rightarrow> (0, rs @ [url])))"

text \<open>\<open>gender, _ := response["gender"].(string)\<close>\<close>

definition getGenderizeGender :: "world \<Rightarrow> string \<Rightarrow> requests \<Rightarrow> string \<times> requests" where
  "getGenderizeGender w name rs =
     (let url = lookup_url w ''GENDERIZE_API'' name in
      case genderize_get w url of
        Failed \<Rightarrow> ([], rs @ [url])
      | Answered response \<Rightarrow>
          (case response ''gender'' of
             Some (JString gender) \<Rightarrow> (gender, rs @ [url])
           | _ \<Rightarrow> ([], rs @ [url])))"

text \<open>
  \<open>response["country"].([]interface{})[0].(map[string]interface{})["country_id"].(string)\<close>:
  the first two assertions have no \<open>ok\<close> result and the index is unchecked, so each of them
  panics; only the last assertion is the two-valued form.
\<close>

definition getNationality ::
  "world \<Rightarrow> string \<Rightarrow> requests \<Rightarrow> (panic + string) \<times> requests" where
  "getNationality w name rs =
     (let url = lookup_url w ''NATIONALIZE_API'' name in
      case nationalize_get w url of
        Failed \<Rightarrow> (Inr [], rs @ [url])
      | Answered response \<Rightarrow>
          (case response ''country'' of
             Some (JArray country) \<Rightarrow>
               (case country of
                  [] \<Rightarrow> (Inl IndexOutOfRange, rs @ [url])
                | first # _ \<Rightarrow>
                    (case first of
                       JObject m \<Rightarrow>
                         (case m ''country_id'' of
                            Some (JString nationality) \<Rightarrow> (Inr nationality, rs @ [url])
                          | _ \<Rightarrow> (Inr [], rs @ [url]))
                     | _ \<Rightarrow> (Inl InterfaceConversion, rs @ [url])))
           | _ \<Rightarrow> (Inl InterfaceConversion, rs @ [url])))"

definition getEnrichedData ::
  "world \<Rightarrow> string \<Rightarrow> requests \<Rightarrow> (panic + go_int \<times> string \<times> string) \<times> requests" where
  "getEnrichedData w name rs =
     (let (age, rs1) = getAgifyAge w name rs;
          (gender, rs2) = getGenderizeGender w name rs1;
          (nationality, rs3) = getNationality w name rs2
      in case nationality of
           Inl p \<Rightarrow> (Inl p, rs3)
         | Inr n \<Rightarrow> (Inr (age, gender, n), rs3))"

definition enrichPersonData ::
  "world \<Rightarrow> Person \<Rightarrow> requests \<Rightarrow> (panic + Person) \<times> requests" where
  "enrichPersonData w person rs =
     (case getEnrichedData w (Name person) rs of
        (Inl p, rs') \<Rightarrow> (Inl p, rs')
      | (Inr (age, gender, nationality), rs') \<Rightarrow>
          (Inr (person\<lparr>Age := age, Gender := gender, Nationality := nationality\<rparr>), rs'))"

section \<open>Requests, the store and replies\<close>

text \<open>
  \<open>strconv.Atoi\<close>: an optional sign, then at least one decimal digit and nothing else;
  a value outside the range of \<open>int\<close> is an error as well.
\<close>

fun digits_value :: "string \<Rightarrow> nat \<Rightarrow> nat option" where
  "digits_value [] n = Some n"
| "digits_value (c # cs) n =
     (if 48 \<le> (of_char c :: nat) \<and> (of_char c :: nat) \<le> 57
      then digits_value cs (n * 10 + (of_char c - 48))
      else None)"

definition Atoi :: "string \<Rightarrow> go_int option" where
  "Atoi s =
     (let neg = (case s of c # _ \<Rightarrow> c = CHR ''-'' | [] \<Rightarrow> False);
          ds = (case s of c # cs \<Rightarrow> if c = CHR ''-'' \<or> c = CHR ''+'' then cs else s | [] \<Rightarrow> [])
      in if ds = [] then None
         else case digits_value ds 0 of
                None \<Rightarrow> None
              | Some n \<Rightarrow>
                  (let v = (if neg then - int n else int n)
                   in if fits_int v then Some (word_of_int v) else None))"

text \<open>
  A request body as \<open>decoder.Decode\<close> sees it. \<open>Malformed\<close> is a body for which
  \<open>Decode\<close> returns an error (no JSON value, not an object, or a member of the wrong type
  for its field). Otherwise the body is an object; each field of \<open>Person\<close> is either given
  by a member of the object or not given (no such member, or \<open>null\<close>).
\<close>

record payload =
  p_ID :: "go_uint option"
  p_Name :: "string option"
  p_Surname :: "string option"
  p_Patronymic :: "string option"
  p_Age :: "go_int option"
  p_Gender :: "string option"
  p_Nationality :: "string option"

datatype body = Malformed | WellFormed payload

text \<open>
  \<open>var person Person; decoder.Decode(&person)\<close>: the struct starts as the zero value and
  \<open>Decode\<close> assigns the fields the body gives.
\<close>

definition given :: "'a option \<Rightarrow> 'a \<Rightarrow> 'a" where
  "given v old = (case v of None \<Rightarrow> old | Some x \<Rightarrow> x)"

definition Decode :: "body \<Rightarrow> Person option" where
  "Decode b =
     (case b of
        Malformed \<Rightarrow> None
      | WellFormed p \<Rightarrow>
          Some \<lparr>ID = given (p_ID p) (ID zero_Person),
                Name = given (p_Name p) (Name zero_Person),
                Surname = given (p_Surname p) (Surname zero_Person),
                Patronymic = given (p_Patronymic p) (Patronymic zero_Person),
                Age = given (p_Age p) (Age zero_Person),
                Gender = given (p_Gender p) (Gender zero_Person),
                Nationality = given (p_Nationality p) (Nationality zero_Person)\<rparr>)"

text \<open>
  The database behind the global \<open>db\<close>, as the handlers use it. The store \<open>'s\<close> and the
  five operations are parameters: \<open>db_First\<close> is \<open>None\<close> when \<open>db.First(..).Error\<close> is
  not \<open>nil\<close>; \<open>db_Create\<close> and \<open>db_Save\<close> return the struct as the call leaves it
  together with the new store. The handlers ignore the errors of every call but \<open>First\<close>.
  Nothing is assumed of the operations, so what is proved of the handlers holds whatever
  the database does: a connection on which every call fails, as after \<open>db.Close()\<close>, is
  the instance whose \<open>db_First\<close> is always \<open>None\<close> and whose writes leave the store as
  it is.
\<close>

record 's gorm =
  db_Find :: "'s \<Rightarrow> Person list"
  db_First :: "'s \<Rightarrow> go_int \<Rightarrow> Person option"
  db_Create :: "'s \<Rightarrow> Person \<Rightarrow> Person \<times> 's"
  db_Save :: "'s \<Rightarrow> Person \<Rightarrow> Person \<times> 's"
  db_Delete :: "'s \<Rightarrow> Person \<Rightarrow> 's"

text \<open>What a handler encodes as the JSON body of its answer.\<close>

datatype response_data =
    PeopleData "Person list"
  | PersonData Person
  | MessageData string
  | ErrorData string

text \<open>
  A handler either writes a status and a body, or panics before writing anything (the
  server then drops the connection).
\<close>

datatype reply = Panicked panic | Responded nat response_data

text \<open>The calls that change the database, with the struct each was given.\<close>

datatype db_write = Created Person | Saved Person | Deleted Person

text \<open>
  What handling one request comes to: the reply, the store afterwards, the URLs requested
  and the writes issued, both in order.
\<close>

record 's result =
  reply :: reply
  store :: 's
  fetched :: requests
  writes :: "db_write list"

section \<open>Handlers\<close>

definition respondJSON :: "nat \<Rightarrow> response_data \<Rightarrow> reply" where
  "respondJSON status data = Responded status data"

definition respondError :: "nat \<Rightarrow> string \<Rightarrow> reply" where
  "respondError code message = respondJSON code (ErrorData message)"

text \<open>A handler that returns after a reply, having requested and written nothing.\<close>

definition only_reply :: "reply \<Rightarrow> 's \<Rightarrow> 's result" where
  "only_reply r s = \<lparr>reply = r, store = s, fetched = [], writes = []\<rparr>"

definition getPeople :: "'s gorm \<Rightarrow> 's \<Rightarrow> 's result" where
  "getPeople g s = only_reply (respondJSON 200 (PeopleData (db_Find g s))) s"

definition getPerson :: "'s gorm \<Rightarrow> 's \<Rightarrow> string \<Rightarrow> 's result" where
  "getPerson g s id_param =
     (case Atoi id_param of
        None \<Rightarrow> only_reply (respondError 400 ''Invalid person ID'') s
      | Some personID \<Rightarrow>
          (case db_First g s personID of
             None \<Rightarrow> only_reply (respondError 404 ''Person not found'') s
           | Some person \<Rightarrow> only_reply (respondJSON 200 (PersonData person)) s))"

definition createPerson :: "'s gorm \<Rightarrow> world \<Rightarrow> 's \<Rightarrow> body \<Rightarrow> 's result" where
  "createPerson g w s b =
     (case Decode b of
        None \<Rightarrow> only_reply (respondError 400 ''Invalid request payload'') s
      | Some person \<Rightarrow>
          (case enrichPersonData w person [] of
             (Inl p, rs) \<Rightarrow> \<lparr>reply = Panicked p, store = s, fetched = rs, writes = []\<rparr>
           | (Inr enriched, rs) \<Rightarrow>
               (let (created, s') = db_Create g s enriched
                in \<lparr>reply = respondJSON 201 (PersonData created), store = s', fetched = rs,
                     writes = [Created enriched]\<rparr>)))"

definition updatePerson :: "'s gorm \<Rightarrow> world \<Rightarrow> 's \<Rightarrow> string \<Rightarrow> body \<Rightarrow> 's result" where
  "updatePerson g w s id_param b =
     (case Atoi id_param of
        None \<Rightarrow> only_reply (respondError 400 ''Invalid person ID'') s
      | Some personID \<Rightarrow>
          (case db_First g s personID of
             None \<Rightarrow> only_reply (respondError 404 ''Person not found'') s
           | Some existingPerson \<Rightarrow>
               (case Decode b of
                  None \<Rightarrow> only_reply (respondError 400 ''Invalid request payload'') s
                | Some updatedPerson \<Rightarrow>
                    (case enrichPersonData w
                            (existingPerson\<lparr>Name := Name updatedPerson,
                               Surname := Surname updatedPerson,
                               Patronymic := Patronymic updatedPerson\<rparr>) [] of
                       (Inl p, rs) \<Rightarrow>
                         \<lparr>reply = Panicked p, store = s, fetched = rs, writes = []\<rparr>
                     | (Inr enriched, rs) \<Rightarrow>
                         (let (saved, s') = db_Save g s enriched
                          in \<lparr>reply = respondJSON 200 (PersonData saved), store = s',
                               fetched = rs, writes = [Saved enriched]\<rparr>)))))"

definition deletePerson :: "'s gorm \<Rightarrow> 's \<Rightarrow> string \<Rightarrow> 's result" where
  "deletePerson g s id_param =
     (case Atoi id_param of
        None \<Rightarrow> only_reply (respondError 400 ''Invalid person ID'') s
      | Some personID \<Rightarrow>
          (case db_First g s personID of
             None \<Rightarrow> only_reply (respondError 404 ''Person not found'') s
           | Some person \<Rightarrow>
               \<lparr>reply = respondJSON 200 (MessageData ''Person deleted successfully''),
                store = db_Delete g s person, fetched = [], writes = [Deleted person]\<rparr>))"

section \<open>Reading a result\<close>

text \<open>The record a request had the database create or save, if it got that far.\<close>

fun written :: "db_write list \<Rightarrow> Person option" where
  "written (Created q # _) = Some q"
| "written (Saved q # _) = Some q"
| "written (Deleted _ # ws) = written ws"
| "written [] = None"

definition persisted :: "'s result \<Rightarrow> Person option" where
  "persisted r = written (writes r)"

text \<open>The derived fields of that record.\<close>

definition derived :: "'s result \<Rightarrow> (go_int \<times> string \<times> string) option" where
  "derived r = map_option (\<lambda>q. (Age q, Gender q, Nationality q)) (persisted r)"

text \<open>The three URLs enrichment requests for a name.\<close>

definition enrichment_urls :: "world \<Rightarrow> string \<Rightarrow> requests" where
  "enrichment_urls w name =
     [lookup_url w ''AGIFY_API'' name, lookup_url w ''GENDERIZE_API'' name,
      lookup_url w ''NATIONALIZE_API'' name]"

text \<open>
  The age service gives nothing that converts to a negative age for this name: its lookup
  fails, or its answer has no number under \<open>age\<close>, or that number is above \<open>-1\<close> and
  below \<open>2 ^ 63\<close>.
\<close>

definition age_answer_nonneg :: "world \<Rightarrow> string \<Rightarrow> bool" where
  "age_answer_nonneg w name =
     (case agify_get w (lookup_url w ''AGIFY_API'' name) of
        Failed \<Rightarrow> True
      | Answered response \<Rightarrow>
          (case response ''age'' of
             Some (JNumber x) \<Rightarrow> - 1 < x \<and> x < 2 ^ 63
           | _ \<Rightarrow> True))"

text \<open>
  The age is unknown for this name: the lookup fails, or its answer has no number under
  \<open>age\<close>.
\<close>

definition age_unknown :: "world \<Rightarrow> string \<Rightarrow> bool" where
  "age_unknown w name =
     (case agify_get w (lookup_url w ''AGIFY_API'' name) of
        Failed \<Rightarrow> True
      | Answered response \<Rightarrow>
          (case response ''age'' of
             Some (JNumber x) \<Rightarrow> False
           | _ \<Rightarrow> True))"

section \<open>A table in memory\<close>

text \<open>
  One instance of the store, used to run the handlers on concrete requests: the rows of
  the table as a list of persons, found by their \<open>ID\<close>; a new row with \<open>ID\<close> zero gets the
  number after the largest one in use.
\<close>

definition table_First :: "Person list \<Rightarrow> go_int \<Rightarrow> Person option" where
  "table_First s i = find (\<lambda>r. ID r = i) s"

definition table_Create :: "Person list \<Rightarrow> Person \<Rightarrow> Person \<times> Person list" where
  "table_Create s p =
     (let q = (if ID p = 0 then p\<lparr>ID := 1 + fold max (map ID s) 0\<rparr> else p)
      in (q, s @ [q]))"

definition table_Save :: "Person list \<Rightarrow> Person \<Rightarrow> Person \<times> Person list" where
  "table_Save s p = (p, map (\<lambda>r. if ID r = ID p then p else r) s)"

definition table_Delete :: "Person list \<Rightarrow> Person \<Rightarrow> Person list" where
  "table_Delete s p = filter (\<lambda>r. ID r \<noteq> ID p) s"

definition table :: "Person list gorm" where
  "table =
     \<lparr>db_Find = (\<lambda>s. s), db_First = table_First, db_Create = table_Create,
      db_Save = table_Save, db_Delete = table_Delete\<rparr>"

section \<open>Example inputs\<close>

definition example_env :: "string \<Rightarrow> string" where
  "example_env v =
     (if v = ''AGIFY_API'' then ''https://api.agify.io''
      else if v = ''GENDERIZE_API'' then ''https://api.genderize.io''
      else if v = ''NATIONALIZE_API'' then ''https://api.nationalize.io''
      else [])"

text \<open>
  A world in which the three services give fixed answers whatever the name. Out of range,
  the conversion yields the smallest \<open>int\<close>, as the amd64 instruction does.
\<close>

definition services :: "lookup \<Rightarrow> lookup \<Rightarrow> lookup \<Rightarrow> world" where
  "services a g n =
     \<lparr>getenv = example_env, agify_get = (\<lambda>_. a), genderize_get = (\<lambda>_. g),
      nationalize_get = (\<lambda>_. n), int_of_large = (\<lambda>_. word_of_int (- (2 ^ 63)))\<rparr>"

definition age_42 :: lookup where
  "age_42 = Answered [''age'' \<mapsto> JNumber 42]"

definition gender_male :: lookup where
  "gender_male = Answered [''gender'' \<mapsto> JString ''male'']"

definition country_US :: lookup where
  "country_US = Answered [''country'' \<mapsto> JArray [JObject [''country_id'' \<mapsto> JString ''US'']]]"

definition country_none :: lookup where
  "country_none = Answered [''country'' \<mapsto> JArray []]"

text \<open>The payload \<open>{"name":"John","surname":"Doe"}\<close>.\<close>

definition john_doe :: payload where
  "john_doe =
     \<lparr>p_ID = None, p_Name = Some ''John'', p_Surname = Some ''Doe'', p_Patronymic = None,
      p_Age = None, p_Gender = None, p_Nationality = None\<rparr>"

text \<open>A row already in the table.\<close>

definition row_7 :: Person where
  "row_7 =
     \<lparr>ID = 7, Name = ''John'', Surname = ''Roe'', Patronymic = ''P'', Age = 30,
      Gender = ''female'', Nationality = ''FR''\<rparr>"

definition age_minus_5 :: lookup where
  "age_minus_5 = Answered [''age'' \<mapsto> JNumber (- 5)]"

definition age_1e19 :: lookup where
  "age_1e19 = Answered [''age'' \<mapsto> JNumber (10 ^ 19)]"

text \<open>The payload \<open>{}\<close>.\<close>

definition empty_object :: payload where
  "empty_object =
     \<lparr>p_ID = None, p_Name = None, p_Surname = None, p_Patronymic = None,
      p_Age = None, p_Gender = None, p_Nationality = None\<rparr>"

text \<open>A payload with the same name as \<open>john_doe\<close> that also gives the derived fields.\<close>

definition john_smith :: payload where
  "john_smith =
     \<lparr>p_ID = None, p_Name = Some ''John'', p_Surname = Some ''Smith'',
      p_Patronymic = Some ''Q'', p_Age = Some 99, p_Gender = Some ''x'',
      p_Nationality = Some ''ZZ''\<rparr>"

section \<open>Unfolding\<close>

lemmas example_defs =
  services_def example_env_def age_42_def gender_male_def country_US_def country_none_def
  age_minus_5_def age_1e19_def john_doe_def john_smith_def empty_object_def row_7_def
  lookup_url_def

lemmas run_defs =
  createPerson_def updatePerson_def enrichPersonData_def getEnrichedData_def getAgifyAge_def
  getGenderizeGender_def getNationality_def Decode_def given_def zero_Person_def
  float64_to_int_def truncate_rat_def fits_int_def respondJSON_def respondError_def
  only_reply_def persisted_def derived_def table_def table_First_def table_Create_def
  table_Save_def table_Delete_def Atoi_def enrichment_urls_def Let_def

section \<open>The requests enrichment makes and the values it returns\<close>

text \<open>Each lookup requests exactly its own URL, whatever the answer.\<close>

lemma snd_getAgifyAge: "snd (getAgifyAge w name rs) = rs @ [lookup_url w ''AGIFY_API'' name]"
  by (simp add: getAgifyAge_def Let_def split: lookup.split option.split json.split)

lemma snd_getGenderizeGender:
  "snd (getGenderizeGender w name rs) = rs @ [lookup_url w ''GENDERIZE_API'' name]"
  by (simp add: getGenderizeGender_def Let_def split: lookup.split option.split json.split)

lemma snd_getNationality:
  "snd (getNationality w name rs) = rs @ [lookup_url w ''NATIONALIZE_API'' name]"
  by (simp add: getNationality_def Let_def split: lookup.split option.split json.split list.split)

text \<open>The value a lookup returns does not depend on what was requested before.\<close>

lemma fst_getAgifyAge: "fst (getAgifyAge w name rs) = fst (getAgifyAge w name [])"
  by (simp add: getAgifyAge_def Let_def split: lookup.split option.split json.split)

lemma fst_getGenderizeGender:
  "fst (getGenderizeGender w name rs) = fst (getGenderizeGender w name [])"
  by (simp add: getGenderizeGender_def Let_def split: lookup.split option.split json.split)

lemma fst_getNationality: "fst (getNationality w name rs) = fst (getNationality w name [])"
  by (simp add: getNationality_def Let_def split: lookup.split option.split json.split list.split)

text \<open>
  Enrichment requests the three URLs in order and returns the three values, unless the
  nationality lookup panics.
\<close>

lemma snd_getEnrichedData: "snd (getEnrichedData w name rs) = rs @ enrichment_urls w name"
  by (simp add: getEnrichedData_def case_prod_beta snd_getAgifyAge snd_getGenderizeGender
      snd_getNationality enrichment_urls_def split: sum.split)

lemma fst_getEnrichedData:
  "fst (getEnrichedData w name rs) =
     (case fst (getNationality w name []) of
        Inl p \<Rightarrow> Inl p
      | Inr n \<Rightarrow> Inr (fst (getAgifyAge w name []), fst (getGenderizeGender w name []), n))"
proof -
  obtain a r1 where a: "getAgifyAge w name rs = (a, r1)" by (cases "getAgifyAge w name rs")
  obtain g r2 where g: "getGenderizeGender w name r1 = (g, r2)"
    by (cases "getGenderizeGender w name r1")
  obtain n r3 where n: "getNationality w name r2 = (n, r3)" by (cases "getNationality w name r2")
  have "fst (getAgifyAge w name []) = a" using fst_getAgifyAge [of w name rs] a by simp
  moreover have "fst (getGenderizeGender w name []) = g"
    using fst_getGenderizeGender [of w name r1] g by simp
  moreover have "fst (getNationality w name []) = n"
    using fst_getNationality [of w name r2] n by simp
  ultimately show ?thesis
    by (simp add: getEnrichedData_def a g n split: sum.split)
qed

lemma getEnrichedData_eq:
  "getEnrichedData w name rs =
     (case fst (getNationality w name []) of
        Inl p \<Rightarrow> Inl p
      | Inr n \<Rightarrow> Inr (fst (getAgifyAge w name []), fst (getGenderizeGender w name []), n),
      rs @ enrichment_urls w name)"
  using fst_getEnrichedData [of w name rs] snd_getEnrichedData [of w name rs]
  by (metis prod.collapse)

lemma enrichPersonData_eq:
  "enrichPersonData w person rs =
     (case fst (getEnrichedData w (Name person) []) of
        Inl p \<Rightarrow> Inl p
      | Inr t \<Rightarrow> Inr (person\<lparr>Age := fst t, Gender := fst (snd t), Nationality := snd (snd t)\<rparr>),
      rs @ enrichment_urls w (Name person))"
  by (simp add: enrichPersonData_def getEnrichedData_eq split: sum.split prod.split)

section \<open>Create and update on a body that decodes\<close>

lemma createPerson_Decoded:
  assumes "Decode b = Some person"
  shows "createPerson g w s b =
     (case fst (getEnrichedData w (Name person) []) of
        Inl p \<Rightarrow>
          \<lparr>reply = Panicked p, store = s, fetched = enrichment_urls w (Name person), writes = []\<rparr>
      | Inr t \<Rightarrow>
          \<lparr>reply = respondJSON 201 (PersonData (fst (db_Create g s
               (person\<lparr>Age := fst t, Gender := fst (snd t), Nationality := snd (snd t)\<rparr>)))),
           store = snd (db_Create g s
               (person\<lparr>Age := fst t, Gender := fst (snd t), Nationality := snd (snd t)\<rparr>)),
           fetched = enrichment_urls w (Name person),
           writes = [Created
               (person\<lparr>Age := fst t, Gender := fst (snd t), Nationality := snd (snd t)\<rparr>)]\<rparr>)"
  using assms
  by (simp add: createPerson_def enrichPersonData_eq split: sum.split prod.split)

lemma updatePerson_Decoded:
  assumes "Atoi id_param = Some personID" and "db_First g s personID = Some existing"
    and "Decode b = Some person"
  shows "updatePerson g w s id_param b =
     (case fst (getEnrichedData w (Name person) []) of
        Inl p \<Rightarrow>
          \<lparr>reply = Panicked p, store = s, fetched = enrichment_urls w (Name person), writes = []\<rparr>
      | Inr t \<Rightarrow>
          \<lparr>reply = respondJSON 200 (PersonData (fst (db_Save g s
               (existing\<lparr>Name := Name person, Surname := Surname person,
                  Patronymic := Patronymic person, Age := fst t, Gender := fst (snd t),
                  Nationality := snd (snd t)\<rparr>)))),
           store = snd (db_Save g s
               (existing\<lparr>Name := Name person, Surname := Surname person,
                  Patronymic := Patronymic person, Age := fst t, Gender := fst (snd t),
                  Nationality := snd (snd t)\<rparr>)),
           fetched = enrichment_urls w (Name person),
           writes = [Saved
               (existing\<lparr>Name := Name person, Surname := Surname person,
                  Patronymic := Patronymic person, Age := fst t, Gender := fst (snd t),
                  Nationality := snd (snd t)\<rparr>)]\<rparr>)"
  using assms
  by (simp add: updatePerson_def enrichPersonData_eq split: sum.split prod.split)




section \<open>The conversion to \<open>int\<close>\<close>

lemma truncate_rat_toward_zero:
  "\<bar>of_int (truncate_rat x)\<bar> \<le> \<bar>x\<bar> \<and> \<bar>x - of_int (truncate_rat x)\<bar> < 1"
  by (simp add: truncate_rat_def) linarith

lemma sint_float64_to_int:
  "fits_int (truncate_rat x) \<Longrightarrow> sint (float64_to_int w x) = truncate_rat x"
  by (simp add: float64_to_int_def fits_int_def sint_sbintrunc' signed_take_bit_int_eq_self)

lemma float64_to_int_out_of_range:
  "\<not> fits_int (truncate_rat x) \<Longrightarrow> sint (float64_to_int w x) \<noteq> truncate_rat x"
  using sint_lt [of "float64_to_int w x"] sint_ge [of "float64_to_int w x"]
  by (auto simp add: fits_int_def)

lemma truncate_rat_nonneg:
  "- 1 < x \<Longrightarrow> 0 \<le> truncate_rat x"
  by (simp add: truncate_rat_def)

lemma truncate_rat_fits:
  "- 1 < x \<Longrightarrow> x < 2 ^ 63 \<Longrightarrow> fits_int (truncate_rat x)"
  by (simp add: truncate_rat_def fits_int_def floor_less_iff)

lemma getAgifyAge_nonneg:
  assumes "case agify_get w (lookup_url w ''AGIFY_API'' name) of
             Failed \<Rightarrow> True
           | Answered response \<Rightarrow>
               (case response ''age'' of
                  Some (JNumber x) \<Rightarrow> - 1 < x \<and> x < 2 ^ 63
                | _ \<Rightarrow> True)"
  shows "0 \<le> sint (fst (getAgifyAge w name rs))"
  using assms
  by (auto simp add: getAgifyAge_def Let_def sint_float64_to_int truncate_rat_fits
      truncate_rat_nonneg split: lookup.splits option.splits json.splits)

lemma getAgifyAge_unknown:
  "age_unknown w name \<Longrightarrow> fst (getAgifyAge w name rs) = 0"
  by (auto simp add: age_unknown_def getAgifyAge_def Let_def
      split: lookup.splits option.splits json.splits)

lemma getAgifyAge_answer_nonneg:
  "age_answer_nonneg w name \<Longrightarrow> 0 \<le> sint (fst (getAgifyAge w name rs))"
  unfolding age_answer_nonneg_def by (rule getAgifyAge_nonneg)

section \<open>What is handed to the database\<close>

lemma persisted_createPerson:
  assumes "Decode b = Some person"
  shows "persisted (createPerson g w s b) =
     (case fst (getEnrichedData w (Name person) []) of
        Inl p \<Rightarrow> None
      | Inr t \<Rightarrow>
          Some (person\<lparr>Age := fst t, Gender := fst (snd t), Nationality := snd (snd t)\<rparr>))"
  using assms by (simp add: createPerson_Decoded persisted_def split: sum.split)

lemma persisted_updatePerson:
  assumes "Atoi id_param = Some personID" and "db_First g s personID = Some existing"
    and "Decode b = Some person"
  shows "persisted (updatePerson g w s id_param b) =
     (case fst (getEnrichedData w (Name person) []) of
        Inl p \<Rightarrow> None
      | Inr t \<Rightarrow>
          Some (existing\<lparr>Name := Name person, Surname := Surname person,
                  Patronymic := Patronymic person, Age := fst t, Gender := fst (snd t),
                  Nationality := snd (snd t)\<rparr>))"
  using assms by (simp add: updatePerson_Decoded persisted_def split: sum.split)

lemma persisted_age_createPerson:
  assumes "Decode b = Some person"
  shows "case fst (getNationality w (Name person) []) of
           Inl p \<Rightarrow> persisted (createPerson g w s b) = None
         | Inr n \<Rightarrow>
             (\<exists>q. persisted (createPerson g w s b) = Some q \<and>
                  Age q = fst (getAgifyAge w (Name person) []))"
  using assms
  by (simp add: persisted_createPerson fst_getEnrichedData split: sum.split)

lemma persisted_age_updatePerson:
  assumes "Atoi id_param = Some personID" and "db_First g s personID = Some existing"
    and "Decode b = Some person"
  shows "case fst (getNationality w (Name person) []) of
           Inl p \<Rightarrow> persisted (updatePerson g w s id_param b) = None
         | Inr n \<Rightarrow>
             (\<exists>q. persisted (updatePerson g w s id_param b) = Some q \<and>
                  Age q = fst (getAgifyAge w (Name person) []))"
  using assms
  by (simp add: persisted_updatePerson fst_getEnrichedData split: sum.split)

section \<open>Updates that reach the database\<close>

text \<open>
  When the nationality lookup does not panic, an update saves the record with the three
  values looked up for the payload's name, whatever the record held, and with name,
  surname and patronymic as the payload gives them (empty where it gives none).
\<close>

lemma updatePerson_saves_recomputed:
  assumes "Atoi id_param = Some personID" and "db_First g s personID = Some existing"
    and "Decode b = Some person"
  shows "fetched (updatePerson g w s id_param b) = enrichment_urls w (Name person) \<and>
         writes (updatePerson g w s id_param b) =
           (case fst (getEnrichedData w (Name person) []) of
              Inl p \<Rightarrow> []
            | Inr (age, gender, nationality) \<Rightarrow>
                [Saved \<lparr>ID = ID existing, Name = Name person, Surname = Surname person,
                   Patronymic = Patronymic person, Age = age, Gender = gender,
                   Nationality = nationality\<rparr>])"
  using assms
  by (cases existing) (simp add: updatePerson_Decoded split: sum.split prod.split)

lemma updatePerson_saves_recomputed_example:
  "Name row_7 = ''John'' \<and>
   fetched (updatePerson table (services age_42 gender_male country_US) [row_7] ''7''
     (WellFormed john_doe)) =
     [''https://api.agify.io/?name=John'', ''https://api.genderize.io/?name=John'',
      ''https://api.nationalize.io/?name=John''] \<and>
   writes (updatePerson table (services age_42 gender_male country_US) [row_7] ''7''
     (WellFormed john_doe)) =
     [Saved \<lparr>ID = 7, Name = ''John'', Surname = ''Doe'', Patronymic = [], Age = 42,
        Gender = ''male'', Nationality = ''US''\<rparr>]"
proof -
  let ?w = "services age_42 gender_male country_US"
  have d: "Decode (WellFormed john_doe) = Some
      \<lparr>ID = 0, Name = ''John'', Surname = ''Doe'', Patronymic = [], Age = 0, Gender = [],
       Nationality = []\<rparr>"
    by (simp add: Decode_def given_def zero_Person_def john_doe_def)
  have a: "Atoi ''7'' = Some 7" by (simp add: Atoi_def fits_int_def)
  have f: "db_First table [row_7] 7 = Some row_7"
    by (simp add: table_def table_First_def row_7_def)
  have e: "fst (getEnrichedData ?w ''John'' []) = Inr (42, ''male'', ''US'')"
    by (simp add: run_defs example_defs)
  from updatePerson_saves_recomputed [OF a f d, of ?w] e
  show ?thesis by (simp add: enrichment_urls_def example_defs)
qed

lemma updatePerson_saves_payload_fields:
  assumes "Atoi id_param = Some personID" and "db_First g s personID = Some existing"
  shows "writes (updatePerson g w s id_param (WellFormed p)) =
           (case fst (getEnrichedData w (case p_Name p of None \<Rightarrow> [] | Some x \<Rightarrow> x) []) of
              Inl e \<Rightarrow> []
            | Inr (age, gender, nationality) \<Rightarrow>
                [Saved \<lparr>ID = ID existing,
                   Name = (case p_Name p of None \<Rightarrow> [] | Some x \<Rightarrow> x),
                   Surname = (case p_Surname p of None \<Rightarrow> [] | Some x \<Rightarrow> x),
                   Patronymic = (case p_Patronymic p of None \<Rightarrow> [] | Some x \<Rightarrow> x),
                   Age = age, Gender = gender, Nationality = nationality\<rparr>]) \<and>
         (p_Name p = None \<longrightarrow>
            fetched (updatePerson g w s id_param (WellFormed p)) =
              [getenv w ''AGIFY_API'' @ ''/?name='', getenv w ''GENDERIZE_API'' @ ''/?name='',
               getenv w ''NATIONALIZE_API'' @ ''/?name=''])"
proof -
  have d: "Decode (WellFormed p) = Some
      \<lparr>ID = given (p_ID p) 0, Name = given (p_Name p) [], Surname = given (p_Surname p) [],
       Patronymic = given (p_Patronymic p) [], Age = given (p_Age p) 0,
       Gender = given (p_Gender p) [], Nationality = given (p_Nationality p) []\<rparr>"
    by (simp add: Decode_def zero_Person_def)
  show ?thesis
    using updatePerson_Decoded [OF assms d, of w]
    by (cases existing)
       (simp add: given_def enrichment_urls_def lookup_url_def split: sum.split prod.split)
qed

lemma updatePerson_saves_payload_fields_example:
  "Surname row_7 = ''Roe'' \<and> Patronymic row_7 = ''P'' \<and>
   writes (updatePerson table (services age_42 gender_male country_US) [row_7] ''7''
     (WellFormed empty_object)) =
     [Saved \<lparr>ID = 7, Name = [], Surname = [], Patronymic = [], Age = 42,
        Gender = ''male'', Nationality = ''US''\<rparr>] \<and>
   fetched (updatePerson table (services age_42 gender_male country_US) [row_7] ''7''
     (WellFormed empty_object)) =
     [''https://api.agify.io/?name='', ''https://api.genderize.io/?name='',
      ''https://api.nationalize.io/?name='']"
proof -
  let ?w = "services age_42 gender_male country_US"
  have a: "Atoi ''7'' = Some 7" by (simp add: Atoi_def fits_int_def)
  have f: "db_First table [row_7] 7 = Some row_7"
    by (simp add: table_def table_First_def row_7_def)
  have e: "fst (getEnrichedData ?w [] []) = Inr (42, ''male'', ''US'')"
    by (simp add: run_defs example_defs)
  from updatePerson_saves_payload_fields [OF a f, of ?w empty_object] e
  show ?thesis by (simp add: example_defs)
qed

section \<open>Failed lookups and panics\<close>

lemma failed_lookup_defaults:
  "agify_get w (lookup_url w ''AGIFY_API'' name) = Failed \<Longrightarrow>
     fst (getAgifyAge w name rs) = 0"
  "genderize_get w (lookup_url w ''GENDERIZE_API'' name) = Failed \<Longrightarrow>
     fst (getGenderizeGender w name rs) = []"
  "nationalize_get w (lookup_url w ''NATIONALIZE_API'' name) = Failed \<Longrightarrow>
     fst (getNationality w name rs) = Inr []"
  by (simp_all add: getAgifyAge_def getGenderizeGender_def getNationality_def)

lemma getNationality_returns_iff:
  "(\<exists>n. fst (getNationality w name rs) = Inr n) \<longleftrightarrow>
     (case nationalize_get w (lookup_url w ''NATIONALIZE_API'' name) of
        Failed \<Rightarrow> True
      | Answered response \<Rightarrow>
          (case response ''country'' of
             Some (JArray (JObject m # rest)) \<Rightarrow> True
           | _ \<Rightarrow> False))"
  by (simp add: getNationality_def Let_def
      split: lookup.split option.split json.split list.split)

lemma createPerson_replies_unless_nationality_panics:
  assumes "Decode b = Some person" and "fst (getNationality w (Name person) []) = Inr n"
  shows "\<exists>created. reply (createPerson g w s b) = Responded 201 (PersonData created)"
  using assms
  by (simp add: createPerson_Decoded fst_getEnrichedData respondJSON_def)

section \<open>Properties\<close>

text \<open>
  C1. Nationality extraction should never raise and should give the empty string when
  \<open>country\<close> is an empty array. It raises: on the answer \<open>{"country":[]}\<close> the index
  \<open>[0]\<close> panics, and a create on that answer ends without reply and without a write.
\<close>

theorem getNationality_empty_country_panics:
  "getNationality (services a g country_none) ''John'' [] =
     (Inl IndexOutOfRange, [''https://api.nationalize.io/?name=John'']) \<and>
   createPerson table (services age_42 gender_male country_none) [] (WellFormed john_doe) =
     \<lparr>reply = Panicked IndexOutOfRange, store = [],
      fetched = [''https://api.agify.io/?name=John'', ''https://api.genderize.io/?name=John'',
                 ''https://api.nationalize.io/?name=John''],
      writes = []\<rparr>"
  by (simp add: createPerson_def enrichPersonData_def getEnrichedData_def getAgifyAge_def
      getGenderizeGender_def getNationality_def Decode_def given_def zero_Person_def
      float64_to_int_def truncate_rat_def fits_int_def example_defs)

text \<open>
  C2. A failure of one lookup should cost only its own field and never the enclosing
  operation. With the age lookup failed and the nationality service answering
  \<open>{"country":[]}\<close>, the create panics all the same.
\<close>

theorem createPerson_age_failure_still_panics:
  "createPerson table (services Failed gender_male country_none) [] (WellFormed john_doe) =
     \<lparr>reply = Panicked IndexOutOfRange, store = [],
      fetched = [''https://api.agify.io/?name=John'', ''https://api.genderize.io/?name=John'',
                 ''https://api.nationalize.io/?name=John''],
      writes = []\<rparr>"
  by (simp add: createPerson_def enrichPersonData_def getEnrichedData_def getAgifyAge_def
      getGenderizeGender_def getNationality_def Decode_def given_def zero_Person_def
      example_defs)



text \<open>
  C4. Every update of a record that exists should recompute the derived fields and
  overwrite the earlier ones. With the nationality service answering \<open>{"country":[]}\<close>
  the three lookups are requested, then the update panics before \<open>db.Save\<close>: the record
  keeps the derived fields it had.
\<close>

theorem updatePerson_panic_keeps_prior_derived_fields:
  "db_First table [row_7] 7 = Some row_7 \<and>
   (Age row_7, Gender row_7, Nationality row_7) = (30, ''female'', ''FR'') \<and>
   updatePerson table (services age_42 gender_male country_none) [row_7] ''7''
     (WellFormed john_doe) =
     \<lparr>reply = Panicked IndexOutOfRange, store = [row_7],
      fetched = [''https://api.agify.io/?name=John'', ''https://api.genderize.io/?name=John'',
                 ''https://api.nationalize.io/?name=John''],
      writes = []\<rparr>"
  by (simp add: run_defs example_defs)

text \<open>
  C5, as amended. When the age service answers, the age returned is the number under
  \<open>age\<close> with its fraction discarded, provided that integer fits \<open>int\<close>; it is 0 when
  there is no number under \<open>age\<close>. (\<open>truncate_rat_toward_zero\<close>: discarding the fraction
  moves the number towards zero by less than one.)
\<close>

theorem getAgifyAge_extracts_age:
  assumes "agify_get w (lookup_url w ''AGIFY_API'' name) = Answered response"
  shows "case response ''age'' of
           Some (JNumber x) \<Rightarrow>
             fits_int (truncate_rat x) \<longrightarrow> sint (fst (getAgifyAge w name rs)) = truncate_rat x
         | _ \<Rightarrow> fst (getAgifyAge w name rs) = 0"
  using assms
  by (simp add: getAgifyAge_def Let_def sint_float64_to_int split: option.split json.split)

theorem getAgifyAge_extracts_age_witness:
  "sint (fst (getAgifyAge (services (Answered [''age'' \<mapsto> JNumber (429 / 10)]) Failed Failed)
      ''John'' [])) = 42 \<and>
   fst (getAgifyAge (services (Answered [''age'' \<mapsto> JNull]) Failed Failed) ''John'' []) = 0"
proof -
  let ?r1 = "[''age'' \<mapsto> JNumber (429 / 10)]"
  let ?r2 = "[''age'' \<mapsto> JNull]"
  have t: "truncate_rat (429 / 10) = 42"
    by (simp add: truncate_rat_def floor_eq_iff)
  have f: "fits_int (truncate_rat (429 / 10))" by (simp add: t fits_int_def)
  have a1: "agify_get (services (Answered ?r1) Failed Failed)
      (lookup_url (services (Answered ?r1) Failed Failed) ''AGIFY_API'' ''John'') = Answered ?r1"
    by (simp add: services_def)
  have a2: "agify_get (services (Answered ?r2) Failed Failed)
      (lookup_url (services (Answered ?r2) Failed Failed) ''AGIFY_API'' ''John'') = Answered ?r2"
    by (simp add: services_def)
  from getAgifyAge_extracts_age [OF a1, of "[]"] f
  have "sint (fst (getAgifyAge (services (Answered ?r1) Failed Failed) ''John'' [])) = 42"
    by (simp add: t)
  moreover from getAgifyAge_extracts_age [OF a2, of "[]"]
  have "fst (getAgifyAge (services (Answered ?r2) Failed Failed) ''John'' []) = 0"
    by simp
  ultimately show ?thesis by simp
qed

text \<open>
  C5 as stated fails for a number beyond the range of \<open>int\<close>: for \<open>{"age":1e19}\<close> the
  age returned is not \<open>10 ^ 19\<close> (by \<open>float64_to_int_out_of_range\<close> no 64-bit result
  could be).
\<close>

theorem getAgifyAge_large_age_counterexample:
  "sint (fst (getAgifyAge (services age_1e19 Failed Failed) ''John'' [])) \<noteq>
     truncate_rat (10 ^ 19)"
  by (simp add: getAgifyAge_def float64_to_int_def truncate_rat_def fits_int_def example_defs)

text \<open>
  C6. A create whose body does not decode answers 400, leaves the store as it was, issues
  no write and requests no lookup.
\<close>

theorem createPerson_Malformed:
  "createPerson g w s Malformed =
     \<lparr>reply = Responded 400 (ErrorData ''Invalid request payload''), store = s,
      fetched = [], writes = []\<rparr>"
  by (simp add: createPerson_def Decode_def only_reply_def respondError_def respondJSON_def)

text \<open>
  C7. A read, update or delete of an identifier that \<open>First\<close> does not find answers 404,
  leaves the store as it was, issues no write and requests no lookup.
\<close>

theorem absent_identifier_not_found:
  assumes "Atoi id_param = Some personID" and "db_First g s personID = None"
  shows "getPerson g s id_param =
           \<lparr>reply = Responded 404 (ErrorData ''Person not found''), store = s,
            fetched = [], writes = []\<rparr> \<and>
         updatePerson g w s id_param b =
           \<lparr>reply = Responded 404 (ErrorData ''Person not found''), store = s,
            fetched = [], writes = []\<rparr> \<and>
         deletePerson g s id_param =
           \<lparr>reply = Responded 404 (ErrorData ''Person not found''), store = s,
            fetched = [], writes = []\<rparr>"
  using assms
  by (simp add: getPerson_def updatePerson_def deletePerson_def only_reply_def
      respondError_def respondJSON_def)

theorem absent_identifier_not_found_witness:
  "Atoi ''8'' = Some 8 \<and> db_First table [row_7] 8 = None \<and>
   getPerson table [row_7] ''8'' =
     \<lparr>reply = Responded 404 (ErrorData ''Person not found''), store = [row_7],
      fetched = [], writes = []\<rparr> \<and>
   updatePerson table (services age_42 gender_male country_US) [row_7] ''8'' (WellFormed john_doe) =
     \<lparr>reply = Responded 404 (ErrorData ''Person not found''), store = [row_7],
      fetched = [], writes = []\<rparr> \<and>
   deletePerson table [row_7] ''8'' =
     \<lparr>reply = Responded 404 (ErrorData ''Person not found''), store = [row_7],
      fetched = [], writes = []\<rparr>"
proof -
  have a: "Atoi ''8'' = Some 8" by (simp add: Atoi_def fits_int_def)
  have f: "db_First table [row_7] 8 = None" by (simp add: table_def table_First_def row_7_def)
  show ?thesis
    using a f absent_identifier_not_found [OF a f, of "services age_42 gender_male country_US" "WellFormed john_doe"] by simp
qed

text \<open>
  C8, as amended. Of a record that create or update hands to the database, the age is
  not negative whenever the age service gives nothing that converts to a negative age,
  and it is 0 whenever the age is unknown. A record is handed over exactly when the
  nationality lookup does not panic.
\<close>

theorem persisted_age_nonneg:
  assumes "Decode b = Some person"
  shows "(age_answer_nonneg w (Name person) \<longrightarrow>
            (case fst (getNationality w (Name person) []) of
               Inl p \<Rightarrow> persisted (createPerson g w s b) = None
             | Inr n \<Rightarrow>
                 (\<exists>q. persisted (createPerson g w s b) = Some q \<and> 0 \<le> sint (Age q)))) \<and>
         (age_answer_nonneg w (Name person) \<and> Atoi id_param = Some personID \<and>
          db_First g' s' personID = Some existing \<longrightarrow>
            (case fst (getNationality w (Name person) []) of
               Inl p \<Rightarrow> persisted (updatePerson g' w s' id_param b) = None
             | Inr n \<Rightarrow>
                 (\<exists>q. persisted (updatePerson g' w s' id_param b) = Some q \<and>
                      0 \<le> sint (Age q)))) \<and>
         (age_unknown w (Name person) \<longrightarrow>
            (case fst (getNationality w (Name person) []) of
               Inl p \<Rightarrow> persisted (createPerson g w s b) = None
             | Inr n \<Rightarrow> (\<exists>q. persisted (createPerson g w s b) = Some q \<and> Age q = 0))) \<and>
         (age_unknown w (Name person) \<and> Atoi id_param = Some personID \<and>
          db_First g' s' personID = Some existing \<longrightarrow>
            (case fst (getNationality w (Name person) []) of
               Inl p \<Rightarrow> persisted (updatePerson g' w s' id_param b) = None
             | Inr n \<Rightarrow>
                 (\<exists>q. persisted (updatePerson g' w s' id_param b) = Some q \<and> Age q = 0)))"
proof (intro conjI impI)
  assume "age_answer_nonneg w (Name person)"
  then have "0 \<le> sint (fst (getAgifyAge w (Name person) []))"
    by (rule getAgifyAge_answer_nonneg)
  then show "case fst (getNationality w (Name person) []) of
      Inl p \<Rightarrow> persisted (createPerson g w s b) = None
    | Inr n \<Rightarrow> (\<exists>q. persisted (createPerson g w s b) = Some q \<and> 0 \<le> sint (Age q))"
    using persisted_age_createPerson [OF assms, where w = w and g = g and s = s]
    by (auto split: sum.splits)
next
  assume h: "age_answer_nonneg w (Name person) \<and> Atoi id_param = Some personID \<and>
    db_First g' s' personID = Some existing"
  then have "0 \<le> sint (fst (getAgifyAge w (Name person) []))"
    by (simp add: getAgifyAge_answer_nonneg)
  then show "case fst (getNationality w (Name person) []) of
      Inl p \<Rightarrow> persisted (updatePerson g' w s' id_param b) = None
    | Inr n \<Rightarrow>
        (\<exists>q. persisted (updatePerson g' w s' id_param b) = Some q \<and> 0 \<le> sint (Age q))"
    using h persisted_age_updatePerson [OF _ _ assms, where w = w and g = g' and s = s'
        and id_param = id_param and personID = personID and existing = existing]
    by (auto split: sum.splits)
next
  assume "age_unknown w (Name person)"
  then have "fst (getAgifyAge w (Name person) []) = 0"
    by (rule getAgifyAge_unknown)
  then show "case fst (getNationality w (Name person) []) of
      Inl p \<Rightarrow> persisted (createPerson g w s b) = None
    | Inr n \<Rightarrow> (\<exists>q. persisted (createPerson g w s b) = Some q \<and> Age q = 0)"
    using persisted_age_createPerson [OF assms, where w = w and g = g and s = s]
    by (auto split: sum.splits)
next
  assume h: "age_unknown w (Name person) \<and> Atoi id_param = Some personID \<and>
    db_First g' s' personID = Some existing"
  then have "fst (getAgifyAge w (Name person) []) = 0"
    by (simp add: getAgifyAge_unknown)
  then show "case fst (getNationality w (Name person) []) of
      Inl p \<Rightarrow> persisted (updatePerson g' w s' id_param b) = None
    | Inr n \<Rightarrow> (\<exists>q. persisted (updatePerson g' w s' id_param b) = Some q \<and> Age q = 0)"
    using h persisted_age_updatePerson [OF _ _ assms, where w = w and g = g' and s = s'
        and id_param = id_param and personID = personID and existing = existing]
    by (auto split: sum.splits)
qed

theorem persisted_age_nonneg_witness:
  "(\<exists>q. persisted (createPerson table (services age_42 gender_male country_US) []
          (WellFormed john_doe)) = Some q \<and> 0 \<le> sint (Age q)) \<and>
   (\<exists>q. persisted (updatePerson table (services age_42 gender_male country_US) [row_7] ''7''
          (WellFormed john_doe)) = Some q \<and> 0 \<le> sint (Age q)) \<and>
   (\<exists>q. persisted (createPerson table (services Failed gender_male country_US) []
          (WellFormed john_doe)) = Some q \<and> Age q = 0) \<and>
   (\<exists>q. persisted (updatePerson table (services Failed gender_male country_US) [row_7] ''7''
          (WellFormed john_doe)) = Some q \<and> Age q = 0)"
proof -
  let ?w = "services age_42 gender_male country_US"
  let ?v = "services Failed gender_male country_US"
  let ?q = "\<lparr>ID = 0, Name = ''John'', Surname = ''Doe'', Patronymic = [], Age = 0,
      Gender = [], Nationality = []\<rparr>"
  have d: "Decode (WellFormed john_doe) = Some ?q"
    by (simp add: Decode_def given_def zero_Person_def john_doe_def)
  have a: "Atoi ''7'' = Some 7" by (simp add: Atoi_def fits_int_def)
  have f: "db_First table [row_7] 7 = Some row_7"
    by (simp add: table_def table_First_def row_7_def)
  have n: "age_answer_nonneg ?w (Name ?q)"
    by (simp add: age_answer_nonneg_def example_defs)
  have k: "age_unknown ?v (Name ?q)"
    by (simp add: age_unknown_def example_defs)
  have cw: "fst (getNationality ?w ''John'' []) = Inr ''US''"
    by (simp add: getNationality_def example_defs)
  have cv: "fst (getNationality ?v ''John'' []) = Inr ''US''"
    by (simp add: getNationality_def example_defs)
  note known = persisted_age_nonneg [OF d, where w = ?w and g = table and s = "[]"
      and g' = table and s' = "[row_7]" and id_param = "''7''" and personID = 7
      and existing = row_7]
  note unknown = persisted_age_nonneg [OF d, where w = ?v and g = table and s = "[]"
      and g' = table and s' = "[row_7]" and id_param = "''7''" and personID = 7
      and existing = row_7]
  show ?thesis
    using known unknown n k a f by (simp add: cw cv)
qed

text \<open>
  C8 as stated fails: with the age service answering \<open>{"age":-5}\<close>, a create persists
  the age \<open>-5\<close>.
\<close>

theorem persisted_age_negative_counterexample:
  "map_option (\<lambda>q. sint (Age q))
     (persisted (createPerson table (services age_minus_5 gender_male country_US) []
        (WellFormed john_doe))) = Some (- 5) \<and>
   map (\<lambda>q. sint (Age q))
     (store (createPerson table (services age_minus_5 gender_male country_US) []
        (WellFormed john_doe))) = [- 5]"
  by (simp add: run_defs example_defs)

text \<open>
  C9. What a create does is the same whatever the payload gives for age, gender and
  nationality; the record created carries the values enrichment returns for the name.
\<close>

theorem createPerson_overwrites_client_derived_fields:
  "createPerson g w s (WellFormed (p\<lparr>p_Age := a, p_Gender := ge, p_Nationality := n\<rparr>)) =
     createPerson g w s (WellFormed p) \<and>
   writes (createPerson g w s (WellFormed p)) =
     (case fst (getEnrichedData w (given (p_Name p) []) []) of
        Inl e \<Rightarrow> []
      | Inr (age, gender, nationality) \<Rightarrow>
          [Created \<lparr>ID = given (p_ID p) 0, Name = given (p_Name p) [],
             Surname = given (p_Surname p) [], Patronymic = given (p_Patronymic p) [],
             Age = age, Gender = gender, Nationality = nationality\<rparr>])"
  by (simp add: createPerson_def enrichPersonData_eq Decode_def zero_Person_def
      split: sum.split prod.split)

text \<open>
  C10. Every update should store the empty string for each of name, surname and
  patronymic that the payload does not give. With the payload \<open>{}\<close> and the nationality
  service answering \<open>{"country":[]}\<close> the lookups are requested for the empty name, then
  the update panics before \<open>db.Save\<close>: the record keeps its name, surname and patronymic.
\<close>

theorem updatePerson_panic_keeps_absent_fields:
  "db_First table [row_7] 7 = Some row_7 \<and>
   (Name row_7, Surname row_7, Patronymic row_7) = (''John'', ''Roe'', ''P'') \<and>
   updatePerson table (services age_42 gender_male country_none) [row_7] ''7''
     (WellFormed empty_object) =
     \<lparr>reply = Panicked IndexOutOfRange, store = [row_7],
      fetched = [''https://api.agify.io/?name='', ''https://api.genderize.io/?name='',
                 ''https://api.nationalize.io/?name=''],
      writes = []\<rparr>"
  by (simp add: run_defs example_defs)

end
